theory Spec2Isabelle
  imports Complex_Main "HOL-Library.Word"
begin

section \<open>Test objective systems (OptimizerSystems.h)\<close>

text \<open>
  The C++ type \<open>Real\<close> (a double) is modelled by the mathematical reals: rounding,
  infinities and NaN are outside the model. A \<open>Vector\<close> is a list of reals indexed from 0.
  An objective function has the C++ signature
  \<^verbatim>\<open>int objectiveFunc(const Vector& x, bool new_parameters, Real& f)\<close>;
  the reference parameter \<open>f\<close> is modelled by passing its incoming value and returning
  the pair (status, outgoing value of \<open>f\<close>).

  The number of parameters of a test system is the constructor argument
  \<^verbatim>\<open>unsigned int nParameters\<close>, a 32-bit word; the loop counters of the objective
  functions are \<^verbatim>\<open>unsigned int\<close> too, so loop bounds are compared as unsigned values.
\<close>

type_synonym Vector = "real list"

type_synonym objective = "Vector \<Rightarrow> bool \<Rightarrow> real \<Rightarrow> int \<times> real"

subsection \<open>Cigtab\<close>

definition Cigtab_objectiveFunc :: "32 word \<Rightarrow> objective" where
  "Cigtab_objectiveFunc nParameters x new_parameters f0 =
     (let f = 10000 * x ! 0 * x ! 0 + 0.0001 * x ! 1 * x ! 1;
          f = fold (\<lambda>i f. f + x ! i * x ! i) [0..<unat nParameters] f
      in (0, f))"

definition Cigtab_optimalValue :: real where
  "Cigtab_optimalValue = 0"

definition Cigtab_optimalParameters :: "32 word \<Rightarrow> Vector" where
  "Cigtab_optimalParameters nParameters = replicate (unat nParameters) 0"

subsection \<open>DropWave\<close>

definition DropWave_dotprod :: "Vector \<Rightarrow> real" where
  "DropWave_dotprod x = x ! 0 * x ! 0 + x ! 1 * x ! 1"

definition DropWave_denominator :: "Vector \<Rightarrow> real" where
  "DropWave_denominator x = 0.5 * DropWave_dotprod x + 2"

definition DropWave_objectiveFunc :: objective where
  "DropWave_objectiveFunc x new_parameters f0 =
     (let dotprod = DropWave_dotprod x;
          f = - (1 + cos (12 * sqrt dotprod)) / DropWave_denominator x
      in (0, f))"

definition DropWave_optimalValue :: real where
  "DropWave_optimalValue = - 1"

definition DropWave_optimalParameters :: Vector where
  "DropWave_optimalParameters = replicate 2 0"

subsection \<open>Rosenbrock\<close>

text \<open>
  The loop bound \<^verbatim>\<open>getNumParameters() - 1\<close> is compared with the unsigned counter,
  hence converted to unsigned: for zero parameters it wraps to \<open>2^32 - 1\<close>. The output
  parameter is only ever updated by \<^verbatim>\<open>+=\<close>. \<^verbatim>\<open>pow(a, 2)\<close> is the square.
\<close>

definition Rosenbrock_term :: "Vector \<Rightarrow> nat \<Rightarrow> real" where
  "Rosenbrock_term x i = 100 * (x ! (i + 1) - x ! i * x ! i) ^ 2 + (x ! i - 1) ^ 2"

definition Rosenbrock_objectiveFunc :: "32 word \<Rightarrow> objective" where
  "Rosenbrock_objectiveFunc nParameters x new_parameters f0 =
     (let f = fold (\<lambda>i f. f + Rosenbrock_term x i) [0..<unat (nParameters - 1)] f0
      in (0, f))"

definition Rosenbrock_optimalValue :: real where
  "Rosenbrock_optimalValue = 0"

definition Rosenbrock_optimalParameters :: "32 word \<Rightarrow> Vector" where
  "Rosenbrock_optimalParameters nParameters = replicate (unat nParameters) 1"

section \<open>The CMA-ES optimizer (CMAESOptimizer.cpp)\<close>

subsection \<open>The host framework: systems, settings, errors\<close>

text \<open>
  An \<open>OptimizerSystem\<close> gives the number of parameters (an \<^verbatim>\<open>int\<close>), the optional
  box limits and the objective callback. The optimizer object (\<open>OptimizerRep\<close>) holds
  the system, the protected members \<open>maxIterations\<close>, \<open>convergenceTolerance\<close> and
  \<open>diagnosticsLevel\<close>, and the three bags of advanced options.

  The checking macros \<^verbatim>\<open>SimTK_VALUECHECK_ALWAYS\<close>, \<^verbatim>\<open>SimTK_VALUECHECK_NONNEG_ALWAYS\<close>
  and \<^verbatim>\<open>SimTK_APIARGCHECK4_ALWAYS\<close> throw when their condition fails; a throw is a value
  of type \<open>error\<close> that ends the run.
\<close>

datatype error =
    ValueCheckFailed string
  | APIArgcheckFailed nat

record OptimizerSystem =
  numParameters :: int
  hasLimits :: bool
  lowerLimits :: Vector
  upperLimits :: Vector
  objectiveFunc :: objective

record OptimizerRep =
  optimizerSystem :: OptimizerSystem
  maxIterations :: int
  convergenceTolerance :: real
  diagnosticsLevel :: int
  advancedIntOptions :: "string \<rightharpoonup> int"
  advancedRealOptions :: "string \<rightharpoonup> real"
  advancedBoolOptions :: "string \<rightharpoonup> bool"

text \<open>
  Modelled from the spec: the option bag of the host framework (\<open>getAdvancedIntOption\<close>,
  \<open>getAdvancedRealOption\<close>, \<open>getAdvancedBoolOption\<close> are not in the source files). An
  option that was set is written to the caller's variable and \<open>true\<close> is returned; an
  unspecified option leaves the variable as it was and returns \<open>false\<close>. The result
  \<open>Some v\<close> stands for the first case, \<open>None\<close> for the second.
\<close>

definition getAdvancedIntOption :: "OptimizerRep \<Rightarrow> string \<Rightarrow> int option" where
  "getAdvancedIntOption rep option = advancedIntOptions rep option"

definition getAdvancedRealOption :: "OptimizerRep \<Rightarrow> string \<Rightarrow> real option" where
  "getAdvancedRealOption rep option = advancedRealOptions rep option"

definition getAdvancedBoolOption :: "OptimizerRep \<Rightarrow> string \<Rightarrow> bool option" where
  "getAdvancedBoolOption rep option = advancedBoolOptions rep option"

text \<open>
  Modelled from the spec: \<open>objectiveFuncWrapper\<close> (not in the source files) is the
  transport of the objective callback, \<open>evaluate(n, x, isNewPoint) \<rightarrow> (status, f)\<close>:
  it views the first \<open>n\<close> entries at \<open>x\<close> as a vector, calls the system's objective
  function on it with the output location \<open>f\<close>, and hands back the status.
\<close>

definition objectiveFuncWrapper ::
  "OptimizerRep \<Rightarrow> int \<Rightarrow> Vector \<Rightarrow> bool \<Rightarrow> real \<Rightarrow> int \<times> real" where
  "objectiveFuncWrapper rep n x new_x f =
     objectiveFunc (optimizerSystem rep) (take (nat n) x) new_x f"

subsection \<open>The CMA-ES engine\<close>

text \<open>
  The engine (\<open>cmaes_t\<close> and the \<open>cmaes_*\<close> functions) is a library that is not among the
  source files. Its state is a record of what the optimizer reads and writes: the settings
  \<open>sp\<close> that \<open>processSettingsAfterCMAESInit\<close> assigns, the population size (read by
  \<^verbatim>\<open>cmaes_Get(&evo, "lambda")\<close>), the population (the array that
  \<open>cmaes_SamplePopulation\<close> and \<open>cmaes_ReSampleSingle\<close> return), the best-ever point and
  value (read by \<^verbatim>\<open>cmaes_GetPtr(&evo, "xbestever")\<close> and
  \<^verbatim>\<open>cmaes_Get(&evo, "fbestever")\<close>), and the rest of the distribution state (mean,
  step size, covariance, paths, random generator), of an arbitrary type \<open>'i\<close>.
  The engine's functions are parameters of the model, collected in a record.
\<close>

record cmaes_readpara_t =
  stopMaxFunEvals :: real
  stopMaxIter :: real
  stopTolFun :: real
  updateCmode_maxtime :: real

record 'i cmaes_t =
  sp :: cmaes_readpara_t
  lambda :: int
  rgrgx :: "Vector list"
  xbestever :: Vector
  fbestever :: real
  internals :: 'i

record 'i cmaes_lib =
  cmaes_init_para :: "int \<Rightarrow> Vector \<Rightarrow> Vector \<Rightarrow> int \<Rightarrow> int \<Rightarrow> 'i cmaes_t"
  cmaes_init_final :: "'i cmaes_t \<Rightarrow> 'i cmaes_t \<times> Vector"
  cmaes_resume_distribution :: "'i cmaes_t \<Rightarrow> 'i cmaes_t"
  cmaes_TestForTermination :: "'i cmaes_t \<Rightarrow> bool"
  cmaes_SamplePopulation :: "'i cmaes_t \<Rightarrow> 'i cmaes_t"
  cmaes_redraw :: "'i cmaes_t \<Rightarrow> nat \<Rightarrow> Vector \<times> 'i"
  cmaes_UpdateDistribution :: "'i cmaes_t \<Rightarrow> Vector \<Rightarrow> 'i cmaes_t"

text \<open>
  Modelled from the spec: \<open>cmaes_ReSampleSingle\<close> (not in the source files) is the
  sampler's \<open>resampleOne(state, i)\<close>, which "redraws \<open>x_i\<close> in place": the fresh draw
  (\<open>cmaes_redraw\<close>, which also advances the engine's internal state) replaces row \<open>i\<close>
  of the population, and nothing else of the population changes.
\<close>

definition cmaes_ReSampleSingle :: "'i cmaes_lib \<Rightarrow> 'i cmaes_t \<Rightarrow> nat \<Rightarrow> 'i cmaes_t" where
  "cmaes_ReSampleSingle lib evo i =
     (let (x, r) = cmaes_redraw lib evo i
      in evo\<lparr>rgrgx := (rgrgx evo)[i := x], internals := r\<rparr>)"

subsection \<open>checkInitialPointIsFeasible\<close>

definition checkInitialPointIsFeasible :: "OptimizerRep \<Rightarrow> Vector \<Rightarrow> error + unit" where
  "checkInitialPointIsFeasible rep x =
     (let sys = optimizerSystem rep in
      if hasLimits sys then
        (case find (\<lambda>i. \<not> (lowerLimits sys ! i \<le> x ! i \<and> x ! i \<le> upperLimits sys ! i))
                [0..<nat (numParameters sys)] of
           Some i \<Rightarrow> Inl (APIArgcheckFailed i)
         | None \<Rightarrow> Inr ())
      else Inr ())"

subsection \<open>init and processSettingsAfterCMAESInit\<close>

text \<open>
  \<^verbatim>\<open>int(r)\<close> truncates a double towards zero; \<^verbatim>\<open>std::log\<close> is the natural logarithm.
\<close>

definition int_of_double :: "real \<Rightarrow> int" where
  "int_of_double r = (if 0 \<le> r then \<lfloor>r\<rfloor> else \<lceil>r\<rceil>)"

text \<open>The block "lambda" of \<open>init\<close>: the population size handed to the engine.\<close>

definition init_numsamples :: "OptimizerRep \<Rightarrow> int" where
  "init_numsamples rep =
     (let n = numParameters (optimizerSystem rep);
          numsamples = (case getAdvancedIntOption rep ''lambda'' of Some v \<Rightarrow> v | None \<Rightarrow> 0)
      in if numsamples = 0 then 4 + int_of_double (3 * ln (real_of_int n)) else numsamples)"

text \<open>The block "sigma" of \<open>init\<close>: the step size, and the array filled with it.\<close>

definition init_stepsize :: "OptimizerRep \<Rightarrow> real" where
  "init_stepsize rep =
     (let stepsize = (case getAdvancedRealOption rep ''sigma'' of Some v \<Rightarrow> v | None \<Rightarrow> 0)
      in if stepsize = 0.0 then 0.1 else stepsize)"

definition init_stepsizeArray :: "OptimizerRep \<Rightarrow> Vector" where
  "init_stepsizeArray rep =
     (let n = numParameters (optimizerSystem rep);
          stepsize = init_stepsize rep
      in map (\<lambda>i. stepsize) [0..<nat n])"

definition processSettingsAfterCMAESInit ::
  "OptimizerRep \<Rightarrow> 'i cmaes_t \<Rightarrow> error + 'i cmaes_t" where
  "processSettingsAfterCMAESInit rep evo =
     (let evo = evo\<lparr>sp := (sp evo)\<lparr>stopMaxIter := real_of_int (maxIterations rep)\<rparr>\<rparr>;
          evo = evo\<lparr>sp := (sp evo)\<lparr>stopTolFun := convergenceTolerance rep\<rparr>\<rparr>
      in case (case getAdvancedIntOption rep ''stopMaxFunEvals'' of
                 Some v \<Rightarrow>
                   if v < 0 then Inl (ValueCheckFailed ''stopMaxFunEvals'')
                   else Inr (evo\<lparr>sp := (sp evo)\<lparr>stopMaxFunEvals := real_of_int v\<rparr>\<rparr>)
               | None \<Rightarrow> Inr evo) of
           Inl e \<Rightarrow> Inl e
         | Inr evo \<Rightarrow>
             (case getAdvancedRealOption rep ''maxTimeFractionForEigendecomposition'' of
                Some maxtime \<Rightarrow> Inr (evo\<lparr>sp := (sp evo)\<lparr>updateCmode_maxtime := maxtime\<rparr>\<rparr>)
              | None \<Rightarrow> Inr evo))"

definition init ::
  "'i cmaes_lib \<Rightarrow> OptimizerRep \<Rightarrow> Vector \<Rightarrow> error + ('i cmaes_t \<times> Vector)" where
  "init lib rep results =
     (let n = numParameters (optimizerSystem rep);
          numsamples = init_numsamples rep;
          stepsizeArray = init_stepsizeArray rep
      in case (case getAdvancedIntOption rep ''seed'' of
                 Some seed \<Rightarrow> if seed < 0 then Inl (ValueCheckFailed ''seed'') else Inr seed
               | None \<Rightarrow> Inr 0) of
           Inl e \<Rightarrow> Inl e
         | Inr seed \<Rightarrow>
             (case processSettingsAfterCMAESInit rep
                     (cmaes_init_para lib n results stepsizeArray seed numsamples) of
                Inl e \<Rightarrow> Inl e
              | Inr evo \<Rightarrow> Inr (cmaes_init_final lib evo)))"

subsection \<open>optimize\<close>

text \<open>
  The bounds filter of the generation loop. For offspring \<open>i\<close> the inner \<^verbatim>\<open>for\<close> loop
  looks for the first coordinate outside the limits; when there is one the offspring is
  redrawn and the \<^verbatim>\<open>while\<close> loop starts over. Nothing bounds the number of redraws, so
  the loop is a partial function: \<open>None\<close> is a run that redraws forever. The arrays
  \<open>lower\<close> and \<open>upper\<close> are the limits obtained from \<open>getParameterLimits\<close>.
\<close>

definition out_of_limits :: "Vector \<Rightarrow> Vector \<Rightarrow> Vector \<Rightarrow> nat \<Rightarrow> bool" where
  "out_of_limits lower upper x j \<longleftrightarrow> x ! j < lower ! j \<or> x ! j > upper ! j"

partial_function (option) resample_until_feasible ::
  "'i cmaes_lib \<Rightarrow> Vector \<Rightarrow> Vector \<Rightarrow> int \<Rightarrow> nat \<Rightarrow> 'i cmaes_t \<Rightarrow> 'i cmaes_t option" where
  "resample_until_feasible lib lower upper n i evo =
     (case find (out_of_limits lower upper (rgrgx evo ! i)) [0..<nat n] of
        Some j \<Rightarrow>
          resample_until_feasible lib lower upper n i (cmaes_ReSampleSingle lib evo i)
      | None \<Rightarrow> Some evo)"

partial_function (option) resample_population ::
  "'i cmaes_lib \<Rightarrow> Vector \<Rightarrow> Vector \<Rightarrow> int \<Rightarrow> int \<Rightarrow> 'i cmaes_t \<Rightarrow> 'i cmaes_t option" where
  "resample_population lib lower upper n i evo =
     (if i < lambda evo
      then Option.bind (resample_until_feasible lib lower upper n (nat i) evo)
             (resample_population lib lower upper n (i + 1))
      else Some evo)"

text \<open>
  The evaluation loop: the value written by the callback goes to \<open>funvals[i]\<close>; the status
  that \<open>objectiveFuncWrapper\<close> returns is not used.
\<close>

definition evaluate_population ::
  "OptimizerRep \<Rightarrow> int \<Rightarrow> 'i cmaes_t \<Rightarrow> Vector \<Rightarrow> Vector" where
  "evaluate_population rep n evo funvals =
     fold (\<lambda>i funvals.
             funvals[i := snd (objectiveFuncWrapper rep n (rgrgx evo ! i) True (funvals ! i))])
       [0..<nat (lambda evo)] funvals"

text \<open>One pass through the body of the generation loop.\<close>

definition generation ::
  "'i cmaes_lib \<Rightarrow> OptimizerRep \<Rightarrow> 'i cmaes_t \<times> Vector \<Rightarrow> ('i cmaes_t \<times> Vector) option" where
  "generation lib rep s =
     (let sys = optimizerSystem rep;
          n = numParameters sys;
          funvals = snd s;
          evo = cmaes_SamplePopulation lib (fst s)
      in Option.bind
           (if hasLimits sys
            then resample_population lib (lowerLimits sys) (upperLimits sys) n 0 evo
            else Some evo)
           (\<lambda>evo. let funvals = evaluate_population rep n evo funvals
                  in Some (cmaes_UpdateDistribution lib evo funvals, funvals)))"

partial_function (option) generation_loop ::
  "'i cmaes_lib \<Rightarrow> OptimizerRep \<Rightarrow> 'i cmaes_t \<times> Vector \<Rightarrow> ('i cmaes_t \<times> Vector) option" where
  "generation_loop lib rep s =
     (if \<not> cmaes_TestForTermination lib (fst s)
      then Option.bind (generation lib rep s) (generation_loop lib rep)
      else Some s)"

text \<open>
  The wrap-up: the best-ever point is copied entry by entry into \<open>results\<close>. Printing and
  the files written at diagnostics levels 1 to 3, and \<open>cmaes_exit\<close>, which frees the
  engine's memory, do not affect what \<open>optimize\<close> returns and are left out.
\<close>

definition copy_xbestever :: "int \<Rightarrow> Vector \<Rightarrow> Vector \<Rightarrow> Vector" where
  "copy_xbestever n optx results =
     fold (\<lambda>i results. results[i := optx ! i]) [0..<nat n] results"

text \<open>
  \<open>optimize\<close> from the call of \<open>init\<close> on. The result is the returned value together with
  the final contents of \<open>results\<close>; \<open>None\<close> is a run that never returns.
\<close>

definition optimize_from_init ::
  "'i cmaes_lib \<Rightarrow> OptimizerRep \<Rightarrow> Vector \<Rightarrow> (error + real \<times> Vector) option" where
  "optimize_from_init lib rep results =
     (let n = numParameters (optimizerSystem rep) in
      case init lib rep results of
        Inl e \<Rightarrow> Some (Inl e)
      | Inr (evo, funvals) \<Rightarrow>
          (let isresume =
                 (case getAdvancedBoolOption rep ''resume'' of Some b \<Rightarrow> b | None \<Rightarrow> False);
               evo = (if isresume then cmaes_resume_distribution lib evo else evo)
           in Option.bind (generation_loop lib rep (evo, funvals))
                (\<lambda>(evo, funvals).
                   let optx = xbestever evo;
                       results = copy_xbestever n optx results;
                       f = fbestever evo
                   in Some (Inr (f, results)))))"

definition optimize ::
  "'i cmaes_lib \<Rightarrow> OptimizerRep \<Rightarrow> Vector \<Rightarrow> (error + real \<times> Vector) option" where
  "optimize lib rep results =
     (case checkInitialPointIsFeasible rep results of
        Inl e \<Rightarrow> Some (Inl e)
      | Inr _ \<Rightarrow> optimize_from_init lib rep results)"

section \<open>Concrete systems and a small engine for concrete runs\<close>

text \<open>
  The DropWave system as its constructor builds it: two parameters, limits
  \<open>\<plusminus>5.12\<close> in both coordinates.
\<close>

definition DropWave :: OptimizerSystem where
  "DropWave =
     \<lparr>numParameters = 2, hasLimits = True,
      lowerLimits = [- 5.12, - 5.12], upperLimits = [5.12, 5.12],
      objectiveFunc = DropWave_objectiveFunc\<rparr>"

text \<open>The Cigtab system for two parameters: no limits.\<close>

definition Cigtab2 :: OptimizerSystem where
  "Cigtab2 =
     \<lparr>numParameters = 2, hasLimits = False, lowerLimits = [], upperLimits = [],
      objectiveFunc = Cigtab_objectiveFunc 2\<rparr>"

text \<open>
  An optimizer for a system: one iteration allowed, the option \<open>lambda\<close> set to 2 and no
  other option set.
\<close>

definition rep_of :: "OptimizerSystem \<Rightarrow> OptimizerRep" where
  "rep_of sys =
     \<lparr>optimizerSystem = sys, maxIterations = 1, convergenceTolerance = 0.001,
      diagnosticsLevel = 0, advancedIntOptions = [''lambda'' \<mapsto> 2],
      advancedRealOptions = Map.empty, advancedBoolOptions = Map.empty\<rparr>"

text \<open>
  A deterministic stand-in for the engine, used only to run the optimizer on concrete
  inputs. It keeps the start point and the standard deviations it was given, counts
  redraws and generations, stops after \<open>stopMaxIter\<close> generations, samples every
  offspring at \<open>xmean + 60 * sigma\<close>, redraws at \<open>xmean + (52 - redraws) * sigma\<close>, and
  records offspring 0 as the best one.
\<close>

record demo_internals =
  redraws :: nat
  generations :: nat
  xmean :: Vector
  sigma :: Vector

definition demo_point :: "demo_internals \<Rightarrow> real \<Rightarrow> Vector" where
  "demo_point st c = map (\<lambda>(m, s). m + c * s) (zip (xmean st) (sigma st))"

definition demo_lib :: "demo_internals cmaes_lib" where
  "demo_lib =
     \<lparr>cmaes_init_para = (\<lambda>n xstart stddev seed numsamples.
        \<lparr>sp = \<lparr>stopMaxFunEvals = 0, stopMaxIter = 0, stopTolFun = 0, updateCmode_maxtime = 0\<rparr>,
         lambda = numsamples, rgrgx = replicate (nat numsamples) xstart,
         xbestever = xstart, fbestever = 0,
         internals = \<lparr>redraws = 0, generations = 0, xmean = xstart, sigma = stddev\<rparr>\<rparr>),
      cmaes_init_final = (\<lambda>evo. (evo, replicate (nat (lambda evo)) 0)),
      cmaes_resume_distribution = (\<lambda>evo. evo),
      cmaes_TestForTermination = (\<lambda>evo.
        stopMaxIter (sp evo) \<le> real (generations (internals evo))),
      cmaes_SamplePopulation = (\<lambda>evo.
        evo\<lparr>rgrgx := replicate (nat (lambda evo)) (demo_point (internals evo) 60)\<rparr>),
      cmaes_redraw = (\<lambda>evo i.
        (demo_point (internals evo) (52 - real (redraws (internals evo))),
         (internals evo)\<lparr>redraws := redraws (internals evo) + 1\<rparr>)),
      cmaes_UpdateDistribution = (\<lambda>evo funvals.
        evo\<lparr>xbestever := rgrgx evo ! 0, fbestever := funvals ! 0,
            internals := (internals evo)\<lparr>generations := generations (internals evo) + 1\<rparr>\<rparr>)\<rparr>"

text \<open>
  The engine state the stand-in builds for start point \<open>(0, 0)\<close>, deviations 0.1 and two
  offspring.
\<close>

definition demo_start :: "demo_internals cmaes_t" where
  "demo_start = cmaes_init_para demo_lib 2 [0, 0] [0.1, 0.1] 0 2"

text \<open>
  The optimizer \<open>rep\<close> with the status of every callback result replaced by what \<open>st\<close>
  gives; the value the callback writes is unchanged.
\<close>

definition with_statuses ::
  "(Vector \<Rightarrow> bool \<Rightarrow> real \<Rightarrow> int) \<Rightarrow> OptimizerRep \<Rightarrow> OptimizerRep" where
  "with_statuses st rep =
     rep\<lparr>optimizerSystem := (optimizerSystem rep)
       \<lparr>objectiveFunc := (\<lambda>x new_parameters f.
           (st x new_parameters f,
            snd (objectiveFunc (optimizerSystem rep) x new_parameters f)))\<rparr>\<rparr>"

text \<open>
  Concrete optimizers: a callback that always reports failure (status 1), options with a
  negative seed, no options at all, and a time fraction outside \<open>(0, 1]\<close>.
\<close>

definition always_failing :: "Vector \<Rightarrow> bool \<Rightarrow> real \<Rightarrow> int" where
  "always_failing x new_parameters f = 1"

definition Cigtab2_failing :: OptimizerRep where
  "Cigtab2_failing = with_statuses always_failing (rep_of Cigtab2)"

definition DropWave_bad_seed :: OptimizerRep where
  "DropWave_bad_seed =
     (rep_of DropWave)\<lparr>advancedIntOptions := [''lambda'' \<mapsto> 2, ''seed'' \<mapsto> - 1]\<rparr>"

definition DropWave_defaults :: OptimizerRep where
  "DropWave_defaults = (rep_of DropWave)\<lparr>advancedIntOptions := Map.empty\<rparr>"

definition Cigtab2_bad_maxtime :: OptimizerRep where
  "Cigtab2_bad_maxtime =
     (rep_of Cigtab2)
       \<lparr>advancedRealOptions := [''maxTimeFractionForEigendecomposition'' \<mapsto> - 1]\<rparr>"

section \<open>Properties of the test systems\<close>

lemma fold_accumulate:
  "fold (\<lambda>i f. f + g i) [0..<k] (f0::real) = f0 + (\<Sum>i<k. g i)"
  by (induction k) simp_all

text \<open>
  C8. For every input vector and every dimension, Cigtab's objective sets the output to
  \<open>1e4 * x0^2 + 1e-4 * x1^2\<close> plus the sum of all squares \<open>x_i^2\<close>, \<open>i = 0..n-1\<close>
  (counting \<open>x0\<close> and \<open>x1\<close> again), whatever the incoming value of the output was,
  and returns status 0.
\<close>

theorem Cigtab_objectiveFunc_value:
  "Cigtab_objectiveFunc n x new_parameters f0 =
     (0, 10000 * (x ! 0)\<^sup>2 + 0.0001 * (x ! 1)\<^sup>2 + (\<Sum>i<unat n. (x ! i)\<^sup>2))"
  by (simp add: Cigtab_objectiveFunc_def fold_accumulate power2_eq_square)

text \<open>
  C9. Rosenbrock's objective never initialises its output: for a system with at least one
  parameter the outgoing value is the incoming value plus the Rosenbrock sum over
  \<open>i = 0..n-2\<close>, and the status is 0; so the outgoing value is the Rosenbrock function
  exactly when the incoming value is 0.
\<close>

theorem Rosenbrock_objectiveFunc_accumulates:
  assumes "n \<noteq> 0"
  shows "Rosenbrock_objectiveFunc n x new_parameters f0 =
           (0, f0 + (\<Sum>i<unat n - 1. 100 * (x ! (i + 1) - (x ! i)\<^sup>2)\<^sup>2 + (x ! i - 1)\<^sup>2))
         \<and> (snd (Rosenbrock_objectiveFunc n x new_parameters f0) =
              (\<Sum>i<unat n - 1. 100 * (x ! (i + 1) - (x ! i)\<^sup>2)\<^sup>2 + (x ! i - 1)\<^sup>2)
            \<longleftrightarrow> f0 = 0)"
proof -
  have "unat (n - 1) = unat n - 1"
    using assms by (simp add: unat_minus_one)
  then show ?thesis
    by (simp add: Rosenbrock_objectiveFunc_def Rosenbrock_term_def fold_accumulate
        power2_eq_square)
qed

theorem Rosenbrock_objectiveFunc_accumulates_witness:
  "(3 :: 32 word) \<noteq> 0
   \<and> Rosenbrock_objectiveFunc 3 [0, 0, 0] True 5 = (0, 7)
   \<and> Rosenbrock_objectiveFunc 3 [0, 0, 0] True 0 = (0, 2)"
proof -
  have s: "{..<(2::nat)} = {0, 1}"
    by auto
  show ?thesis
    using Rosenbrock_objectiveFunc_accumulates [of 3 "[0, 0, 0]" True 5]
      Rosenbrock_objectiveFunc_accumulates [of 3 "[0, 0, 0]" True 0]
    by (simp add: s)
qed

text \<open>
  C10. DropWave's objective is total: its denominator \<open>0.5 * (x0^2 + x1^2) + 2\<close> is at
  least 2 for every input, so the division is never by zero; the status is always 0; and
  at the optimal parameters \<open>(0, 0)\<close> the value is exactly the optimal value \<open>-1\<close>.
\<close>

theorem DropWave_objectiveFunc_total:
  "2 \<le> DropWave_denominator x
   \<and> DropWave_denominator x \<noteq> 0
   \<and> fst (DropWave_objectiveFunc x new_parameters f0) = 0
   \<and> DropWave_objectiveFunc DropWave_optimalParameters new_parameters f0
       = (0, DropWave_optimalValue)
   \<and> DropWave_optimalParameters = [0, 0] \<and> DropWave_optimalValue = - 1"
proof -
  have "0 \<le> DropWave_dotprod x"
    by (simp add: DropWave_dotprod_def)
  then have d: "2 \<le> DropWave_denominator x"
    by (simp add: DropWave_denominator_def)
  have opt: "DropWave_optimalParameters = [0, 0]"
    by (simp add: DropWave_optimalParameters_def numeral_2_eq_2)
  have v: "DropWave_objectiveFunc [0, 0] new_parameters f0 = (0, - 1)"
    by (simp add: DropWave_objectiveFunc_def DropWave_denominator_def DropWave_dotprod_def)
  show ?thesis
    using d v by (simp add: opt DropWave_optimalValue_def) (simp add: DropWave_objectiveFunc_def)
qed

section \<open>Properties of the optimizer\<close>

subsection \<open>The bounds filter\<close>

lemma ReSampleSingle_frame:
  "lambda (cmaes_ReSampleSingle lib evo i) = lambda evo"
  "k \<noteq> i \<Longrightarrow> rgrgx (cmaes_ReSampleSingle lib evo i) ! k = rgrgx evo ! k"
  by (simp_all add: cmaes_ReSampleSingle_def split: prod.splits)

lemma resample_until_feasible_frame:
  assumes "resample_until_feasible lib L U n i evo = Some evo'"
  shows "find (out_of_limits L U (rgrgx evo' ! i)) [0..<nat n] = None
         \<and> lambda evo' = lambda evo
         \<and> (\<forall>k. k \<noteq> i \<longrightarrow> rgrgx evo' ! k = rgrgx evo ! k)"
  using assms
proof (induction rule: resample_until_feasible.raw_induct [rotated 1, consumes 1])
  case (1 f lib L U n i evo r)
  show ?case
  proof (cases "find (out_of_limits L U (rgrgx evo ! i)) [0..<nat n]")
    case None
    with 1(2) show ?thesis by simp
  next
    case (Some j)
    with 1(2) have "f lib L U n i (cmaes_ReSampleSingle lib evo i) = Some r"
      by simp
    from 1(1) [OF this] show ?thesis
      by (simp add: ReSampleSingle_frame)
  qed
qed

lemma find_out_of_limits_None:
  "find (out_of_limits L U x) [0..<k] = None \<longleftrightarrow> (\<forall>j<k. L ! j \<le> x ! j \<and> x ! j \<le> U ! j)"
proof -
  have "find (out_of_limits L U x) [0..<k] = None \<longleftrightarrow> (\<forall>j<k. \<not> out_of_limits L U x j)"
    by (simp add: find_None_iff)
  also have "\<dots> \<longleftrightarrow> (\<forall>j<k. L ! j \<le> x ! j \<and> x ! j \<le> U ! j)"
    by (simp add: out_of_limits_def not_less)
  finally show ?thesis .
qed

lemma resample_population_feasible:
  assumes "resample_population lib L U n i evo = Some evo'"
    and "0 \<le> i"
    and "\<forall>k. int k < i \<longrightarrow> find (out_of_limits L U (rgrgx evo ! k)) [0..<nat n] = None"
  shows "lambda evo' = lambda evo \<and>
    (\<forall>k. int k < lambda evo' \<longrightarrow> find (out_of_limits L U (rgrgx evo' ! k)) [0..<nat n] = None)"
  using assms
proof (induction rule: resample_population.raw_induct [rotated 1, consumes 1])
  case (1 f lib L U n i evo r)
  show ?case
  proof (cases "i < lambda evo")
    case False
    with 1(2) have "r = evo" by simp
    with False 1(4) show ?thesis by auto
  next
    case True
    with 1(2) obtain evo1 where
      e1: "resample_until_feasible lib L U n (nat i) evo = Some evo1"
      and e2: "f lib L U n (i + 1) evo1 = Some r"
      by (auto simp: bind_eq_Some_conv)
    note fr = resample_until_feasible_frame [OF e1]
    have "\<forall>k. int k < i + 1 \<longrightarrow> find (out_of_limits L U (rgrgx evo1 ! k)) [0..<nat n] = None"
    proof (intro allI impI)
      fix k assume "int k < i + 1"
      then consider "int k < i" | "k = nat i" using 1(3) by linarith
      then show "find (out_of_limits L U (rgrgx evo1 ! k)) [0..<nat n] = None"
      proof cases
        case 1
        then have "k \<noteq> nat i" by linarith
        with fr 1 \<open>\<forall>k. int k < i \<longrightarrow> _\<close> show ?thesis by simp
      next
        case 2
        with fr show ?thesis by simp
      qed
    qed
    with 1(1) [OF e2] 1(3) fr show ?thesis by simp
  qed
qed

lemma upt_2: "[0..<2] = [0, 1]"
  by (simp add: upt_rec)

lemma demo_sample:
  "cmaes_SamplePopulation demo_lib demo_start = demo_start\<lparr>rgrgx := [[6, 6], [6, 6]]\<rparr>"
  by (simp add: demo_lib_def demo_start_def demo_point_def numeral_2_eq_2)

text \<open>
  A concrete run of the bounds filter: offspring 0 is redrawn twice (5.2 is still outside
  the limits 5.12), offspring 1 once.
\<close>

lemma demo_resample_population:
  "resample_population demo_lib (lowerLimits DropWave) (upperLimits DropWave) 2 0
     (demo_start\<lparr>rgrgx := [[6, 6], [6, 6]]\<rparr>)
   = Some (demo_start\<lparr>rgrgx := [[5.1, 5.1], [5, 5]],
                      internals := (internals demo_start)\<lparr>redraws := 3\<rparr>\<rparr>)"
  by (simp add: resample_population.simps resample_until_feasible.simps upt_2 out_of_limits_def
      cmaes_ReSampleSingle_def demo_lib_def demo_start_def demo_point_def DropWave_def)

text \<open>
  C1. When the system has limits, a pass through the generation loop that reaches the
  evaluation has redrawn the sampled population into a population \<open>pop\<close> all of whose
  \<open>lambda\<close> offspring lie within the limits in each of the \<open>n\<close> coordinates; the
  objective is evaluated on the rows of \<open>pop\<close> and the distribution is updated from \<open>pop\<close>
  and these values.
\<close>

theorem generation_offspring_within_limits:
  assumes "hasLimits (optimizerSystem rep)"
    and "generation lib rep (evo, funvals) = Some (evo', funvals')"
  shows "\<exists>pop. resample_population lib (lowerLimits (optimizerSystem rep))
                 (upperLimits (optimizerSystem rep)) (numParameters (optimizerSystem rep)) 0
                 (cmaes_SamplePopulation lib evo) = Some pop
           \<and> funvals' = evaluate_population rep (numParameters (optimizerSystem rep)) pop funvals
           \<and> evo' = cmaes_UpdateDistribution lib pop funvals'
           \<and> (\<forall>i j. int i < lambda pop \<and> int j < numParameters (optimizerSystem rep) \<longrightarrow>
                  lowerLimits (optimizerSystem rep) ! j \<le> rgrgx pop ! i ! j
                  \<and> rgrgx pop ! i ! j \<le> upperLimits (optimizerSystem rep) ! j)"
proof -
  let ?sys = "optimizerSystem rep"
  let ?n = "numParameters ?sys"
  from assms obtain pop where
    p: "resample_population lib (lowerLimits ?sys) (upperLimits ?sys) ?n 0
          (cmaes_SamplePopulation lib evo) = Some pop"
    and f: "funvals' = evaluate_population rep ?n pop funvals"
    and e: "evo' = cmaes_UpdateDistribution lib pop funvals'"
    by (auto simp: generation_def Let_def bind_eq_Some_conv)
  let ?L = "lowerLimits ?sys" and ?U = "upperLimits ?sys"
  from resample_population_feasible [OF p]
  have "\<forall>k. int k < lambda pop \<longrightarrow>
          find (out_of_limits ?L ?U (rgrgx pop ! k)) [0..<nat ?n] = None"
    by simp
  then have "\<forall>i. int i < lambda pop \<longrightarrow>
          (\<forall>j<nat ?n. ?L ! j \<le> rgrgx pop ! i ! j \<and> rgrgx pop ! i ! j \<le> ?U ! j)"
    by (simp add: find_out_of_limits_None)
  moreover have "int j < ?n \<Longrightarrow> j < nat ?n" for j
    by linarith
  ultimately have "\<forall>i j. int i < lambda pop \<and> int j < ?n \<longrightarrow>
          ?L ! j \<le> rgrgx pop ! i ! j \<and> rgrgx pop ! i ! j \<le> ?U ! j"
    by blast
  with p f e show ?thesis by blast
qed

theorem generation_offspring_within_limits_witness:
  "hasLimits (optimizerSystem (rep_of DropWave))
   \<and> (\<exists>evo' funvals'.
         generation demo_lib (rep_of DropWave) (demo_start, [0, 0]) = Some (evo', funvals')
         \<and> rgrgx evo' = [[5.1, 5.1], [5, 5]])
   \<and> lowerLimits DropWave = [- 5.12, - 5.12] \<and> upperLimits DropWave = [5.12, 5.12]"
proof -
  have h: "hasLimits (optimizerSystem (rep_of DropWave))"
    by (simp add: rep_of_def DropWave_def)
  have s: "optimizerSystem (rep_of DropWave) = DropWave" "numParameters DropWave = 2"
    by (simp_all add: rep_of_def DropWave_def)
  obtain evo' funvals' where
    g: "generation demo_lib (rep_of DropWave) (demo_start, [0, 0]) = Some (evo', funvals')"
    by (auto simp: generation_def Let_def s h [unfolded s] demo_sample demo_resample_population)
  from generation_offspring_within_limits [OF h g] obtain pop where
    p: "resample_population demo_lib (lowerLimits DropWave) (upperLimits DropWave) 2 0
          (cmaes_SamplePopulation demo_lib demo_start) = Some pop"
    and e: "evo' = cmaes_UpdateDistribution demo_lib pop funvals'"
    unfolding s by blast
  from p have "rgrgx pop = [[5.1, 5.1], [5, 5]]"
    by (auto simp: demo_sample demo_resample_population)
  with e have "rgrgx evo' = [[5.1, 5.1], [5, 5]]"
    by (simp add: demo_lib_def)
  with h g show ?thesis
    by (simp add: DropWave_def)
qed

subsection \<open>The check of the initial point\<close>

lemma checkInitialPointIsFeasible_Inr:
  "checkInitialPointIsFeasible rep x = Inr () \<longleftrightarrow>
     (hasLimits (optimizerSystem rep) \<longrightarrow>
        (\<forall>i<nat (numParameters (optimizerSystem rep)).
           lowerLimits (optimizerSystem rep) ! i \<le> x ! i
           \<and> x ! i \<le> upperLimits (optimizerSystem rep) ! i))"
proof -
  let ?sys = "optimizerSystem rep"
  let ?bad = "\<lambda>i. \<not> (lowerLimits ?sys ! i \<le> x ! i \<and> x ! i \<le> upperLimits ?sys ! i)"
  have "find ?bad [0..<nat (numParameters ?sys)] = None \<longleftrightarrow>
          (\<forall>i<nat (numParameters ?sys). \<not> ?bad i)"
    by (simp add: find_None_iff)
  then show ?thesis
    by (cases "find ?bad [0..<nat (numParameters ?sys)]")
      (simp_all add: checkInitialPointIsFeasible_def Let_def)
qed

lemma checkInitialPointIsFeasible_cases:
  "checkInitialPointIsFeasible rep x = Inr () \<or>
   (\<exists>i. checkInitialPointIsFeasible rep x = Inl (APIArgcheckFailed i))"
  by (simp add: checkInitialPointIsFeasible_def Let_def split: option.splits)

text \<open>
  C4. When the system has limits and some coordinate of the initial point is below its
  lower or above its upper limit, \<open>optimize\<close> fails with the argument-check error of
  \<open>checkInitialPointIsFeasible\<close>, whatever the engine and the options are: the check
  comes before \<open>init\<close>. When there are no limits, or every coordinate is within its
  limits, the check passes and \<open>optimize\<close> goes on with \<open>init\<close> and the loop.
\<close>

theorem optimize_checks_initial_point_first:
  "(hasLimits (optimizerSystem rep)
      \<and> (\<exists>i. int i < numParameters (optimizerSystem rep)
            \<and> (x ! i < lowerLimits (optimizerSystem rep) ! i
               \<or> x ! i > upperLimits (optimizerSystem rep) ! i))
    \<longrightarrow> (\<exists>k. checkInitialPointIsFeasible rep x = Inl (APIArgcheckFailed k)
            \<and> optimize lib rep x = Some (Inl (APIArgcheckFailed k))))
   \<and> (\<not> hasLimits (optimizerSystem rep)
        \<or> (\<forall>i. int i < numParameters (optimizerSystem rep) \<longrightarrow>
               lowerLimits (optimizerSystem rep) ! i \<le> x ! i
               \<and> x ! i \<le> upperLimits (optimizerSystem rep) ! i)
    \<longrightarrow> checkInitialPointIsFeasible rep x = Inr ()
        \<and> optimize lib rep x = optimize_from_init lib rep x)"
proof (intro conjI impI)
  assume a: "hasLimits (optimizerSystem rep)
      \<and> (\<exists>i. int i < numParameters (optimizerSystem rep)
            \<and> (x ! i < lowerLimits (optimizerSystem rep) ! i
               \<or> x ! i > upperLimits (optimizerSystem rep) ! i))"
  then obtain i where "i < nat (numParameters (optimizerSystem rep))"
    and "x ! i < lowerLimits (optimizerSystem rep) ! i
         \<or> x ! i > upperLimits (optimizerSystem rep) ! i"
    by (auto simp: zless_nat_eq_int_zless)
  with a have "checkInitialPointIsFeasible rep x \<noteq> Inr ()"
    unfolding checkInitialPointIsFeasible_Inr by (auto simp: not_le)
  with checkInitialPointIsFeasible_cases [of rep x]
  obtain k where k: "checkInitialPointIsFeasible rep x = Inl (APIArgcheckFailed k)"
    by blast
  then have "optimize lib rep x = Some (Inl (APIArgcheckFailed k))"
    by (simp add: optimize_def)
  with k show "\<exists>k. checkInitialPointIsFeasible rep x = Inl (APIArgcheckFailed k)
            \<and> optimize lib rep x = Some (Inl (APIArgcheckFailed k))"
    by blast
next
  assume "\<not> hasLimits (optimizerSystem rep)
        \<or> (\<forall>i. int i < numParameters (optimizerSystem rep) \<longrightarrow>
               lowerLimits (optimizerSystem rep) ! i \<le> x ! i
               \<and> x ! i \<le> upperLimits (optimizerSystem rep) ! i)"
  then show c: "checkInitialPointIsFeasible rep x = Inr ()"
    unfolding checkInitialPointIsFeasible_Inr by auto
  then show "optimize lib rep x = optimize_from_init lib rep x"
    by (simp add: optimize_def)
qed

text \<open>
  On DropWave with a negative seed, \<open>init\<close> alone would fail on the seed; \<open>optimize\<close>
  from \<open>(6, 0)\<close> reports the infeasible coordinate 0 instead. A start on the limits
  passes.
\<close>

theorem optimize_checks_initial_point_first_witness:
  "hasLimits (optimizerSystem DropWave_bad_seed)
   \<and> [6, 0] ! 0 > upperLimits (optimizerSystem DropWave_bad_seed) ! 0
   \<and> init demo_lib DropWave_bad_seed [6, 0] = Inl (ValueCheckFailed ''seed'')
   \<and> optimize demo_lib DropWave_bad_seed [6, 0] = Some (Inl (APIArgcheckFailed 0))
   \<and> checkInitialPointIsFeasible (rep_of DropWave) [5.12, - 5.12] = Inr ()
   \<and> optimize demo_lib (rep_of DropWave) [5.12, - 5.12]
       = optimize_from_init demo_lib (rep_of DropWave) [5.12, - 5.12]"
proof -
  have s: "optimizerSystem DropWave_bad_seed = DropWave"
    "optimizerSystem (rep_of DropWave) = DropWave"
    by (simp_all add: DropWave_bad_seed_def rep_of_def)
  have h: "hasLimits DropWave" "numParameters DropWave = 2"
    "lowerLimits DropWave = [- 5.12, - 5.12]" "upperLimits DropWave = [5.12, 5.12]"
    by (simp_all add: DropWave_def)
  have i: "init demo_lib DropWave_bad_seed [6, 0] = Inl (ValueCheckFailed ''seed'')"
    by (simp add: init_def DropWave_bad_seed_def rep_of_def getAdvancedIntOption_def)
  have c: "checkInitialPointIsFeasible DropWave_bad_seed [6, 0] = Inl (APIArgcheckFailed 0)"
    by (simp add: checkInitialPointIsFeasible_def s h upt_2)
  have 1: "optimize demo_lib DropWave_bad_seed [6, 0] = Some (Inl (APIArgcheckFailed 0))"
    using optimize_checks_initial_point_first [of DropWave_bad_seed "[6, 0]" demo_lib] c
    by (auto simp: s h)
  have "\<forall>i. int i < 2 \<longrightarrow> [- 5.12, - 5.12] ! i \<le> [5.12, - 5.12 :: real] ! i
          \<and> [5.12, - 5.12] ! i \<le> [5.12, 5.12 :: real] ! i"
    by (auto simp: nth_Cons split: nat.splits)
  then have 2: "checkInitialPointIsFeasible (rep_of DropWave) [5.12, - 5.12] = Inr ()
   \<and> optimize demo_lib (rep_of DropWave) [5.12, - 5.12]
       = optimize_from_init demo_lib (rep_of DropWave) [5.12, - 5.12]"
    using optimize_checks_initial_point_first [of "rep_of DropWave" "[5.12, - 5.12]" demo_lib]
    by (simp add: s h)
  show ?thesis
    using i 1 2 by (simp add: s h)
qed

subsection \<open>The defaults of init\<close>

lemma int_of_double_nonneg: "0 \<le> r \<Longrightarrow> int_of_double r = \<lfloor>r\<rfloor>"
  by (simp add: int_of_double_def)

text \<open>
  C6. When the option \<open>lambda\<close> is not set, or set to 0, and the system has \<open>n \<ge> 2\<close>
  parameters, the population size that \<open>init\<close> hands to the engine is
  \<open>\<lfloor>4 + 3 ln n\<rfloor>\<close>.
\<close>

theorem init_numsamples_default:
  assumes "getAdvancedIntOption rep ''lambda'' = None
           \<or> getAdvancedIntOption rep ''lambda'' = Some 0"
    and "2 \<le> numParameters (optimizerSystem rep)"
  shows "init_numsamples rep =
           \<lfloor>4 + 3 * ln (real_of_int (numParameters (optimizerSystem rep)))\<rfloor>"
proof -
  let ?n = "numParameters (optimizerSystem rep)"
  from assms(2) have "0 \<le> 3 * ln (real_of_int ?n)"
    by simp
  then have "int_of_double (3 * ln (real_of_int ?n)) = \<lfloor>3 * ln (real_of_int ?n)\<rfloor>"
    by (rule int_of_double_nonneg)
  moreover have "\<lfloor>4 + 3 * ln (real_of_int ?n)\<rfloor> = 4 + \<lfloor>3 * ln (real_of_int ?n)\<rfloor>"
    by linarith
  ultimately show ?thesis
    using assms(1) by (auto simp: init_numsamples_def Let_def)
qed

lemma exp_two_thirds_less_2: "exp (2 / 3 :: real) < 2"
proof -
  have "exp (1 / 12 :: real) \<le> 1 + 1 / 12 + (1 / 12)\<^sup>2"
    by (rule exp_bound) simp_all
  then have b: "exp (1 / 12 :: real) \<le> 157 / 144"
    by (simp add: power2_eq_square)
  have "exp (2 / 3 :: real) = exp (1 / 12) ^ 8"
    by (simp add: exp_of_nat_mult [symmetric])
  also have "\<dots> \<le> (157 / 144) ^ 8"
    using b by (intro power_mono) simp_all
  also have "\<dots> < 2"
    by (simp add: power_divide)
  finally show ?thesis .
qed

lemma three_ln_2: "2 < 3 * ln (2 :: real)" "3 * ln (2 :: real) < 3"
proof -
  have "ln (exp (2 / 3 :: real)) < ln 2"
    using exp_two_thirds_less_2 by (subst ln_less_cancel_iff) simp_all
  then show "2 < 3 * ln (2 :: real)" by simp
  show "3 * ln (2 :: real) < 3" using ln_2_less_1 by simp
qed

text \<open>For two parameters the default population size is 6.\<close>

theorem init_numsamples_default_witness:
  "getAdvancedIntOption DropWave_defaults ''lambda'' = None
   \<and> 2 \<le> numParameters (optimizerSystem DropWave_defaults)
   \<and> init_numsamples DropWave_defaults = 6"
proof -
  have a: "getAdvancedIntOption DropWave_defaults ''lambda'' = None"
    by (simp add: getAdvancedIntOption_def DropWave_defaults_def rep_of_def)
  have n: "numParameters (optimizerSystem DropWave_defaults) = 2"
    by (simp add: DropWave_defaults_def rep_of_def DropWave_def)
  have "\<lfloor>4 + 3 * ln (2 :: real)\<rfloor> = 6"
    using three_ln_2 by linarith
  with init_numsamples_default [of DropWave_defaults] a n show ?thesis
    by simp
qed

text \<open>
  C2. With the option \<open>sigma\<close> not set, or set to 0, the step size that \<open>init\<close> uses
  is 0.1, not 0.3. On DropWave with no option set, every entry of the array of standard
  deviations is 0.1, and that is what \<open>init\<close> hands to \<open>cmaes_init_para\<close>.
\<close>

theorem init_stepsize_default_is_legacy:
  "init_stepsize (rep\<lparr>advancedRealOptions := (advancedRealOptions rep)(''sigma'' := None)\<rparr>)
     = 0.1
   \<and> init_stepsize (rep\<lparr>advancedRealOptions := (advancedRealOptions rep)(''sigma'' \<mapsto> 0)\<rparr>)
     = 0.1
   \<and> getAdvancedRealOption DropWave_defaults ''sigma'' = None
   \<and> init_stepsize DropWave_defaults \<noteq> 0.3
   \<and> init_stepsizeArray DropWave_defaults = [0.1, 0.1]
   \<and> (\<exists>evo funvals. init demo_lib (rep_of DropWave) [0, 0] = Inr (evo, funvals)
         \<and> sigma (internals evo) = [0.1, 0.1])"
proof -
  have "init_stepsize (rep\<lparr>advancedRealOptions := (advancedRealOptions rep)(''sigma'' := None)\<rparr>)
          = 0.1"
    and "init_stepsize (rep\<lparr>advancedRealOptions := (advancedRealOptions rep)(''sigma'' \<mapsto> 0)\<rparr>)
          = 0.1"
    by (simp_all add: init_stepsize_def getAdvancedRealOption_def)
  moreover have "getAdvancedRealOption DropWave_defaults ''sigma'' = None
   \<and> init_stepsize DropWave_defaults \<noteq> 0.3
   \<and> init_stepsizeArray DropWave_defaults = [0.1, 0.1]
   \<and> (\<exists>evo funvals. init demo_lib (rep_of DropWave) [0, 0] = Inr (evo, funvals)
         \<and> sigma (internals evo) = [0.1, 0.1])"
    by (simp add: init_stepsize_def init_stepsizeArray_def getAdvancedRealOption_def
        getAdvancedIntOption_def DropWave_defaults_def rep_of_def DropWave_def upt_2 init_def
        init_numsamples_def processSettingsAfterCMAESInit_def demo_lib_def)
  ultimately show ?thesis
    by blast
qed

subsection \<open>Concrete runs with the stand-in engine\<close>

lemma Cigtab2_at_6: "objectiveFunc Cigtab2 [6, 6] True f0 = (0, 360072.0036)"
  by (simp add: Cigtab2_def Cigtab_objectiveFunc_def upt_2)

lemma demo_generation:
  assumes "optimizerSystem rep = Cigtab2" and "lambda evo = 2"
    and "xmean (internals evo) = [0, 0]" and "sigma (internals evo) = [0.1, 0.1]"
  shows "generation demo_lib rep (evo, [0, 0]) =
           Some (evo\<lparr>rgrgx := [[6, 6], [6, 6]], xbestever := [6, 6], fbestever := 360072.0036,
                     internals := (internals evo)
                       \<lparr>generations := generations (internals evo) + 1\<rparr>\<rparr>,
                 [360072.0036, 360072.0036])"
proof -
  have n: "numParameters Cigtab2 = 2" "\<not> hasLimits Cigtab2"
    by (simp_all add: Cigtab2_def)
  have s: "cmaes_SamplePopulation demo_lib evo = evo\<lparr>rgrgx := [[6, 6], [6, 6]]\<rparr>"
    using assms by (simp add: demo_lib_def demo_point_def numeral_2_eq_2)
  have e: "evaluate_population rep 2 (evo\<lparr>rgrgx := [[6, 6], [6, 6]]\<rparr>) [0, 0]
             = [360072.0036, 360072.0036]"
    using assms(1,2)
    by (simp add: evaluate_population_def objectiveFuncWrapper_def upt_2 Cigtab2_at_6)
  show ?thesis
    by (simp add: generation_def assms(1) n s e) (simp add: demo_lib_def)
qed

lemma demo_generation_loop:
  assumes "optimizerSystem rep = Cigtab2" and "lambda evo = 2"
    and "xmean (internals evo) = [0, 0]" and "sigma (internals evo) = [0.1, 0.1]"
    and "generations (internals evo) = 0" and "stopMaxIter (sp evo) = 1"
  shows "generation_loop demo_lib rep (evo, [0, 0]) =
           Some (evo\<lparr>rgrgx := [[6, 6], [6, 6]], xbestever := [6, 6], fbestever := 360072.0036,
                     internals := (internals evo)\<lparr>generations := 1\<rparr>\<rparr>,
                 [360072.0036, 360072.0036])"
proof -
  have t0: "\<not> cmaes_TestForTermination demo_lib evo"
    using assms(5,6) by (simp add: demo_lib_def)
  let ?evo1 = "evo\<lparr>rgrgx := [[6, 6], [6, 6]], xbestever := [6, 6], fbestever := 360072.0036,
                     internals := (internals evo)
                       \<lparr>generations := generations (internals evo) + 1\<rparr>\<rparr>"
  have t1: "cmaes_TestForTermination demo_lib ?evo1"
    using assms(5,6) by (simp add: demo_lib_def)
  have "generation_loop demo_lib rep (evo, [0, 0])
          = generation_loop demo_lib rep (?evo1, [360072.0036, 360072.0036])"
    using t0 by (subst generation_loop.simps) (simp add: demo_generation [OF assms(1-4)])
  also have "\<dots> = Some (?evo1, [360072.0036, 360072.0036])"
    using t1 by (subst generation_loop.simps) simp
  finally show ?thesis
    using assms(5) by simp
qed

lemma demo_init:
  assumes "optimizerSystem rep = Cigtab2" and "maxIterations rep = 1"
    and "advancedIntOptions rep = [''lambda'' \<mapsto> 2]"
    and "advancedRealOptions rep ''sigma'' = None"
  shows "\<exists>evo. init demo_lib rep [0, 0] = Inr (evo, [0, 0])
           \<and> lambda evo = 2 \<and> xmean (internals evo) = [0, 0]
           \<and> sigma (internals evo) = [0.1, 0.1]
           \<and> generations (internals evo) = 0 \<and> stopMaxIter (sp evo) = 1"
  by (cases "advancedRealOptions rep ''maxTimeFractionForEigendecomposition''")
    (simp_all add: init_def init_numsamples_def init_stepsizeArray_def init_stepsize_def
      processSettingsAfterCMAESInit_def getAdvancedIntOption_def getAdvancedRealOption_def
      assms Cigtab2_def upt_2 demo_lib_def numeral_2_eq_2)

lemma demo_optimize:
  assumes "optimizerSystem rep = Cigtab2" and "maxIterations rep = 1"
    and "advancedIntOptions rep = [''lambda'' \<mapsto> 2]" and "advancedBoolOptions rep = Map.empty"
    and "advancedRealOptions rep ''sigma'' = None"
  shows "optimize demo_lib rep [0, 0] = Some (Inr (360072.0036, [6, 6]))"
proof -
  have c: "checkInitialPointIsFeasible rep [0, 0] = Inr ()"
    by (simp add: checkInitialPointIsFeasible_def assms(1) Cigtab2_def)
  from demo_init [OF assms(1-3,5)] obtain evo where
    i: "init demo_lib rep [0, 0] = Inr (evo, [0, 0])"
    and e: "lambda evo = 2" "xmean (internals evo) = [0, 0]" "sigma (internals evo) = [0.1, 0.1]"
      "generations (internals evo) = 0" "stopMaxIter (sp evo) = 1"
    by blast
  show ?thesis
    by (simp add: optimize_def c optimize_from_init_def i getAdvancedBoolOption_def assms(4)
        demo_generation_loop [OF assms(1) e] copy_xbestever_def assms(1) Cigtab2_def upt_2)
qed

lemma rep_of_Cigtab2_fields:
  "optimizerSystem (rep_of Cigtab2) = Cigtab2" "maxIterations (rep_of Cigtab2) = 1"
  "advancedIntOptions (rep_of Cigtab2) = [''lambda'' \<mapsto> 2]"
  "advancedBoolOptions (rep_of Cigtab2) = Map.empty"
  "advancedRealOptions (rep_of Cigtab2) ''sigma'' = None"
  by (simp_all add: rep_of_def)

lemma Cigtab2_bad_maxtime_fields:
  "optimizerSystem Cigtab2_bad_maxtime = Cigtab2" "maxIterations Cigtab2_bad_maxtime = 1"
  "advancedIntOptions Cigtab2_bad_maxtime = [''lambda'' \<mapsto> 2]"
  "advancedBoolOptions Cigtab2_bad_maxtime = Map.empty"
  "advancedRealOptions Cigtab2_bad_maxtime ''sigma'' = None"
  by (simp_all add: Cigtab2_bad_maxtime_def rep_of_def)

subsection \<open>The wrap-up\<close>

lemma fold_list_update_length:
  "length (fold (\<lambda>i r. r[i := g i]) [0..<k] r) = length r"
  by (induction k) simp_all

lemma fold_list_update_nth:
  "j < length r \<Longrightarrow>
     fold (\<lambda>i r. r[i := g i]) [0..<k] r ! j = (if j < k then g j else r ! j)"
  by (induction k) (auto simp: nth_list_update fold_list_update_length less_Suc_eq)

lemma copy_xbestever_nth:
  "length (copy_xbestever n optx results) = length results"
  "i < nat n \<Longrightarrow> nat n \<le> length results \<Longrightarrow> copy_xbestever n optx results ! i = optx ! i"
  by (simp_all add: copy_xbestever_def fold_list_update_nth fold_list_update_length)

lemma generation_loop_terminated:
  assumes "generation_loop lib rep s = Some s'"
  shows "cmaes_TestForTermination lib (fst s')"
  using assms
proof (induction rule: generation_loop.raw_induct [rotated 1, consumes 1])
  case (1 f lib rep s r)
  show ?case
  proof (cases "cmaes_TestForTermination lib (fst s)")
    case True
    with 1(2) show ?thesis by simp
  next
    case False
    with 1(2) obtain s1 where "f lib rep s1 = Some r"
      by (auto simp: bind_eq_Some_conv)
    then show ?thesis by (rule 1(1))
  qed
qed

text \<open>
  C7. When the initial point passes the check, \<open>init\<close> succeeds and the generation loop
  ends in the engine state \<open>evoF\<close> (where the termination test holds), \<open>optimize\<close>
  returns the best-ever value of \<open>evoF\<close>, and each of the \<open>n\<close> entries of the caller's
  \<open>results\<close> vector holds the corresponding entry of the best-ever point of \<open>evoF\<close>.
\<close>

theorem optimize_returns_best_ever:
  assumes "checkInitialPointIsFeasible rep results = Inr ()"
    and "init lib rep results = Inr (evo0, funvals0)"
    and "generation_loop lib rep
           (if getAdvancedBoolOption rep ''resume'' = Some True
            then cmaes_resume_distribution lib evo0 else evo0, funvals0) = Some (evoF, funvalsF)"
    and "nat (numParameters (optimizerSystem rep)) \<le> length results"
  shows "\<exists>results'. optimize lib rep results = Some (Inr (fbestever evoF, results'))
           \<and> length results' = length results
           \<and> (\<forall>i<nat (numParameters (optimizerSystem rep)). results' ! i = xbestever evoF ! i)
           \<and> cmaes_TestForTermination lib evoF"
proof -
  let ?n = "numParameters (optimizerSystem rep)"
  let ?r = "copy_xbestever ?n (xbestever evoF) results"
  have r: "(case getAdvancedBoolOption rep ''resume'' of Some b \<Rightarrow> b | None \<Rightarrow> False)
            = (getAdvancedBoolOption rep ''resume'' = Some True)"
    by (simp split: option.splits)
  have "optimize lib rep results = Some (Inr (fbestever evoF, ?r))"
    using assms(1-3) by (simp add: optimize_def optimize_from_init_def Let_def r)
  moreover have "length ?r = length results"
    by (rule copy_xbestever_nth)
  moreover have "\<forall>i<nat ?n. ?r ! i = xbestever evoF ! i"
    using assms(4) by (simp add: copy_xbestever_nth)
  moreover have "cmaes_TestForTermination lib evoF"
    using generation_loop_terminated [OF assms(3)] by simp
  ultimately show ?thesis by blast
qed

theorem optimize_returns_best_ever_witness:
  "checkInitialPointIsFeasible (rep_of Cigtab2) [0, 0] = Inr ()
   \<and> nat (numParameters (optimizerSystem (rep_of Cigtab2))) \<le> length [0 :: real, 0]
   \<and> (\<exists>evo0 funvals0 evoF funvalsF.
         init demo_lib (rep_of Cigtab2) [0, 0] = Inr (evo0, funvals0)
         \<and> generation_loop demo_lib (rep_of Cigtab2) (evo0, funvals0) = Some (evoF, funvalsF)
         \<and> xbestever evoF = [6, 6] \<and> fbestever evoF = 360072.0036
         \<and> optimize demo_lib (rep_of Cigtab2) [0, 0] = Some (Inr (360072.0036, [6, 6])))"
proof -
  have c: "checkInitialPointIsFeasible (rep_of Cigtab2) [0, 0] = Inr ()"
    by (simp add: checkInitialPointIsFeasible_def rep_of_def Cigtab2_def)
  have n: "nat (numParameters (optimizerSystem (rep_of Cigtab2))) \<le> length [0 :: real, 0]"
    by (simp add: rep_of_def Cigtab2_def)
  from demo_init [OF rep_of_Cigtab2_fields(1-3,5)] obtain evo0 where
    i: "init demo_lib (rep_of Cigtab2) [0, 0] = Inr (evo0, [0, 0])"
    and e: "lambda evo0 = 2" "xmean (internals evo0) = [0, 0]"
      "sigma (internals evo0) = [0.1, 0.1]"
      "generations (internals evo0) = 0" "stopMaxIter (sp evo0) = 1"
    by blast
  note l = demo_generation_loop [OF rep_of_Cigtab2_fields(1) e]
  have r: "getAdvancedBoolOption (rep_of Cigtab2) ''resume'' \<noteq> Some True"
    by (simp add: getAdvancedBoolOption_def rep_of_def)
  from l r have l': "generation_loop demo_lib (rep_of Cigtab2)
           (if getAdvancedBoolOption (rep_of Cigtab2) ''resume'' = Some True
            then cmaes_resume_distribution demo_lib evo0 else evo0, [0, 0]) =
           Some (evo0\<lparr>rgrgx := [[6, 6], [6, 6]], xbestever := [6, 6], fbestever := 360072.0036,
                     internals := (internals evo0)\<lparr>generations := 1\<rparr>\<rparr>,
                 [360072.0036, 360072.0036])"
    by simp
  have nn: "nat (numParameters (optimizerSystem (rep_of Cigtab2))) = 2"
    by (simp add: rep_of_def Cigtab2_def)
  from optimize_returns_best_ever [OF c i l' n]
  obtain results' where
    o: "optimize demo_lib (rep_of Cigtab2) [0, 0] = Some (Inr (360072.0036, results'))"
    and "length results' = 2" and "\<forall>i<2. results' ! i = [6, 6] ! i"
    unfolding nn by auto
  then have "results' = [6, 6]"
    by (auto simp: list_eq_iff_nth_eq)
  with o have "optimize demo_lib (rep_of Cigtab2) [0, 0] = Some (Inr (360072.0036, [6, 6]))"
    by simp
  moreover note c n i l
  ultimately show ?thesis
    by simp
qed

subsection \<open>The status of the objective callback\<close>

lemma with_statuses_simps:
  "numParameters (optimizerSystem (with_statuses st rep)) = numParameters (optimizerSystem rep)"
  "hasLimits (optimizerSystem (with_statuses st rep)) = hasLimits (optimizerSystem rep)"
  "lowerLimits (optimizerSystem (with_statuses st rep)) = lowerLimits (optimizerSystem rep)"
  "upperLimits (optimizerSystem (with_statuses st rep)) = upperLimits (optimizerSystem rep)"
  "maxIterations (with_statuses st rep) = maxIterations rep"
  "convergenceTolerance (with_statuses st rep) = convergenceTolerance rep"
  "getAdvancedIntOption (with_statuses st rep) = getAdvancedIntOption rep"
  "getAdvancedRealOption (with_statuses st rep) = getAdvancedRealOption rep"
  "getAdvancedBoolOption (with_statuses st rep) = getAdvancedBoolOption rep"
  "snd (objectiveFuncWrapper (with_statuses st rep) n x new_x f)
     = snd (objectiveFuncWrapper rep n x new_x f)"
  "fst (objectiveFuncWrapper (with_statuses st rep) n x new_x f) = st (take (nat n) x) new_x f"
  by (simp_all add: with_statuses_def getAdvancedIntOption_def getAdvancedRealOption_def
      getAdvancedBoolOption_def objectiveFuncWrapper_def fun_eq_iff)

lemma generation_with_statuses:
  "generation lib (with_statuses st rep) s = generation lib rep s"
  by (simp add: generation_def evaluate_population_def with_statuses_simps Let_def
      cong: if_cong)

lemma generation_loop_transfer:
  assumes "generation_loop lib rep1 s = Some r"
    and "\<forall>s. generation lib rep1 s = generation lib rep2 s"
  shows "generation_loop lib rep2 s = Some r"
  using assms
proof (induction rule: generation_loop.raw_induct [rotated 1, consumes 1])
  case (1 f lib rep1 s r)
  show ?case
  proof (cases "cmaes_TestForTermination lib (fst s)")
    case True
    with 1(2) show ?thesis by (simp add: generation_loop.simps)
  next
    case False
    with 1(2) obtain s1 where g: "generation lib rep1 s = Some s1"
      and "f lib rep1 s1 = Some r"
      by (auto simp: bind_eq_Some_conv)
    then have "generation_loop lib rep2 s1 = Some r"
      using 1(1) 1(3) by blast
    with g 1(3) False show ?thesis
      by (subst generation_loop.simps) simp
  qed
qed

lemma generation_loop_with_statuses:
  "generation_loop lib (with_statuses st rep) s = generation_loop lib rep s"
proof (cases "generation_loop lib rep s")
  case (Some r)
  then show ?thesis
    using generation_loop_transfer [of lib rep s r "with_statuses st rep"]
    by (simp add: generation_with_statuses)
next
  case None
  show ?thesis
  proof (cases "generation_loop lib (with_statuses st rep) s")
    case (Some r)
    then have "generation_loop lib rep s = Some r"
      using generation_loop_transfer [of lib "with_statuses st rep" s r rep]
      by (simp add: generation_with_statuses)
    with None show ?thesis by simp
  next
    case None': None
    with None show ?thesis by simp
  qed
qed

lemma init_with_statuses: "init lib (with_statuses st rep) results = init lib rep results"
  by (simp add: init_def init_numsamples_def init_stepsizeArray_def init_stepsize_def
      processSettingsAfterCMAESInit_def with_statuses_simps Let_def
      cong: sum.case_cong option.case_cong if_cong)

lemma check_with_statuses:
  "checkInitialPointIsFeasible (with_statuses st rep) x = checkInitialPointIsFeasible rep x"
  by (simp add: checkInitialPointIsFeasible_def with_statuses_simps Let_def cong: if_cong)

lemma optimize_with_statuses:
  "optimize lib (with_statuses st rep) results = optimize lib rep results"
  by (simp add: optimize_def optimize_from_init_def check_with_statuses init_with_statuses
      generation_loop_with_statuses with_statuses_simps cong: sum.case_cong)

text \<open>
  A run in which the callback reports failure for every offspring: it goes through the
  distribution update and returns normally, with the same result as the run whose callback
  reports success.
\<close>

theorem objective_failure_counterexample:
  "fst (objectiveFuncWrapper Cigtab2_failing 2 [6, 6] True 0) = 1
   \<and> optimize demo_lib Cigtab2_failing [0, 0] = Some (Inr (360072.0036, [6, 6]))"
  by (simp add: Cigtab2_failing_def optimize_with_statuses with_statuses_simps always_failing_def
      demo_optimize [OF rep_of_Cigtab2_fields])

text \<open>
  C3. \<open>optimize\<close> does not look at the status the objective callback returns, so a
  non-zero status does not abort the run: replacing the statuses by any others changes
  neither the outcome of a generation (it goes on to the distribution update with the
  values the callback wrote) nor the outcome of \<open>optimize\<close>.
\<close>

theorem optimize_ignores_status:
  "optimize lib (with_statuses st rep) results = optimize lib rep results
   \<and> generation lib (with_statuses st rep) s = generation lib rep s"
  by (simp add: optimize_with_statuses generation_with_statuses)

subsection \<open>The option maxTimeFractionForEigendecomposition\<close>

text \<open>
  With the option set to \<open>-1\<close>, outside \<open>(0, 1]\<close>, \<open>init\<close> succeeds, the engine's
  setting holds \<open>-1\<close>, and \<open>optimize\<close> runs its loop and returns.
\<close>

theorem bad_maxtime_counterexample:
  "\<not> (0 < (- 1 :: real) \<and> (- 1 :: real) \<le> 1)
   \<and> getAdvancedRealOption Cigtab2_bad_maxtime ''maxTimeFractionForEigendecomposition''
       = Some (- 1)
   \<and> \<not> isl (init demo_lib Cigtab2_bad_maxtime [0, 0])
   \<and> updateCmode_maxtime (sp (fst (projr (init demo_lib Cigtab2_bad_maxtime [0, 0])))) = - 1
   \<and> optimize demo_lib Cigtab2_bad_maxtime [0, 0] = Some (Inr (360072.0036, [6, 6]))"
proof -
  have "init demo_lib Cigtab2_bad_maxtime [0, 0] =
          Inr (cmaes_init_final demo_lib
                 ((cmaes_init_para demo_lib 2 [0, 0] [0.1, 0.1] 0 2)
                    \<lparr>sp := \<lparr>stopMaxFunEvals = 0, stopMaxIter = 1, stopTolFun = 0.001,
                            updateCmode_maxtime = - 1\<rparr>\<rparr>))"
    by (simp add: init_def init_numsamples_def init_stepsizeArray_def init_stepsize_def
      processSettingsAfterCMAESInit_def getAdvancedIntOption_def getAdvancedRealOption_def
      Cigtab2_bad_maxtime_def rep_of_def Cigtab2_def upt_2 demo_lib_def)
  then show ?thesis
    by (simp add: demo_optimize [OF Cigtab2_bad_maxtime_fields])
      (simp add: getAdvancedRealOption_def Cigtab2_bad_maxtime_def demo_lib_def)
qed

lemma processSettings_accepts_any_maxtime:
  assumes "getAdvancedRealOption rep ''maxTimeFractionForEigendecomposition'' = Some v"
    and "\<forall>k. getAdvancedIntOption rep ''stopMaxFunEvals'' = Some k \<longrightarrow> 0 \<le> k"
  shows "\<exists>evo'. processSettingsAfterCMAESInit rep evo = Inr evo'
            \<and> updateCmode_maxtime (sp evo') = v"
  using assms
  by (cases "getAdvancedIntOption rep ''stopMaxFunEvals''")
    (auto simp: processSettingsAfterCMAESInit_def Let_def not_less [symmetric])

text \<open>
  C5. A value given for \<open>maxTimeFractionForEigendecomposition\<close> is not validated, so
  a value outside \<open>(0, 1]\<close> is no failure: whatever the value,
  \<open>processSettingsAfterCMAESInit\<close> stores it in the engine's settings, and \<open>init\<close>
  succeeds with it, as long as the options that are checked (\<open>seed\<close> and
  \<open>stopMaxFunEvals\<close>, which must not be negative) pass.
\<close>

theorem init_accepts_any_maxtime:
  assumes "getAdvancedRealOption rep ''maxTimeFractionForEigendecomposition'' = Some v"
    and "\<forall>k. getAdvancedIntOption rep ''seed'' = Some k \<longrightarrow> 0 \<le> k"
    and "\<forall>k. getAdvancedIntOption rep ''stopMaxFunEvals'' = Some k \<longrightarrow> 0 \<le> k"
  shows "(\<exists>evo'. processSettingsAfterCMAESInit rep evo = Inr evo'
            \<and> updateCmode_maxtime (sp evo') = v)
         \<and> (\<exists>evo'. init lib rep results = Inr (cmaes_init_final lib evo')
            \<and> updateCmode_maxtime (sp evo') = v)"
proof -
  have "\<exists>seed. (case getAdvancedIntOption rep ''seed'' of
                 Some seed \<Rightarrow> if seed < 0 then Inl (ValueCheckFailed ''seed'') else Inr seed
               | None \<Rightarrow> Inr 0) = Inr seed"
    using assms(2)
    by (cases "getAdvancedIntOption rep ''seed''") (auto simp: not_less [symmetric])
  then obtain seed where s: "(case getAdvancedIntOption rep ''seed'' of
                 Some seed \<Rightarrow> if seed < 0 then Inl (ValueCheckFailed ''seed'') else Inr seed
               | None \<Rightarrow> Inr 0) = Inr seed"
    by blast
  from processSettings_accepts_any_maxtime [OF assms(1,3)] obtain evo' where
    "processSettingsAfterCMAESInit rep
       (cmaes_init_para lib (numParameters (optimizerSystem rep)) results
          (init_stepsizeArray rep) seed (init_numsamples rep)) = Inr evo'"
    and "updateCmode_maxtime (sp evo') = v"
    by blast
  then have "init lib rep results = Inr (cmaes_init_final lib evo')
            \<and> updateCmode_maxtime (sp evo') = v"
    by (simp add: init_def Let_def s)
  with processSettings_accepts_any_maxtime [OF assms(1,3)] show ?thesis by blast
qed

theorem init_accepts_any_maxtime_witness:
  "getAdvancedRealOption Cigtab2_bad_maxtime ''maxTimeFractionForEigendecomposition''
     = Some (- 1)
   \<and> getAdvancedIntOption Cigtab2_bad_maxtime ''seed'' = None
   \<and> getAdvancedIntOption Cigtab2_bad_maxtime ''stopMaxFunEvals'' = None
   \<and> (\<exists>evo'. init demo_lib Cigtab2_bad_maxtime [0, 0] = Inr (cmaes_init_final demo_lib evo')
         \<and> updateCmode_maxtime (sp evo') = - 1)"
proof -
  have a: "getAdvancedRealOption Cigtab2_bad_maxtime ''maxTimeFractionForEigendecomposition''
             = Some (- 1)"
    and b: "getAdvancedIntOption Cigtab2_bad_maxtime ''seed'' = None"
    and c: "getAdvancedIntOption Cigtab2_bad_maxtime ''stopMaxFunEvals'' = None"
    by (simp_all add: getAdvancedRealOption_def getAdvancedIntOption_def Cigtab2_bad_maxtime_def
        rep_of_def)
  from init_accepts_any_maxtime
    [OF a, where lib = demo_lib and results = "[0, 0]" and evo = demo_start]
  have "\<exists>evo'. init demo_lib Cigtab2_bad_maxtime [0, 0] = Inr (cmaes_init_final demo_lib evo')
         \<and> updateCmode_maxtime (sp evo') = - 1"
    by (simp add: b c)
  with a b c show ?thesis
    by simp
qed

end
